theory Spec2Isabelle
  imports Complex_Main
begin

section \<open>Python strings\<close>

text \<open>
  A Python \<open>str\<close> is a sequence of Unicode code points; it is modelled as the list of
  their numbers. \<open>ascii\<close> writes an ASCII literal of the source as such a list.
\<close>

type_synonym pystr = "nat list"

definition ascii :: "string \<Rightarrow> pystr" where
  "ascii s = map of_char s"

text \<open>
  \<open>str.strip()\<close> without argument removes leading and trailing whitespace, that is the
  code points for which \<open>str.isspace\<close> holds: U+0009..U+000D, U+001C..U+0020, U+0085,
  U+00A0, U+1680, U+2000..U+200A, U+2028, U+2029, U+202F, U+205F and U+3000.
\<close>

definition isspace :: "nat \<Rightarrow> bool" where
  "isspace c \<longleftrightarrow>
     (9 \<le> c \<and> c \<le> 13) \<or> (28 \<le> c \<and> c \<le> 32) \<or> c = 133 \<or> c = 160 \<or> c = 5760 \<or>
     (8192 \<le> c \<and> c \<le> 8202) \<or> c = 8232 \<or> c = 8233 \<or> c = 8239 \<or> c = 8287 \<or> c = 12288"

definition strip :: "pystr \<Rightarrow> pystr" where
  "strip s = rev (dropWhile isspace (rev (dropWhile isspace s)))"

text \<open>
  \<open>str.lower()\<close> on the letters A..Z. Python also maps the cased letters beyond ASCII;
  only two of them give an ASCII letter (U+212A gives k, U+0130 gives i followed by
  U+0307), so on every string the result is equal to one of the ASCII names this
  program compares with or looks up (none of which has a k) exactly when Python's is.
\<close>

definition lower_cp :: "nat \<Rightarrow> nat" where
  "lower_cp c = (if 65 \<le> c \<and> c \<le> 90 then c + 32 else c)"

definition lower :: "pystr \<Rightarrow> pystr" where
  "lower s = map lower_cp s"

text \<open>\<open>sub in s\<close> on strings: \<open>sub\<close> occurs in \<open>s\<close> as a contiguous run.\<close>

fun starts_with :: "pystr \<Rightarrow> pystr \<Rightarrow> bool" where
  "starts_with s [] = True"
| "starts_with [] (c # sub) = False"
| "starts_with (d # s) (c # sub) = (d = c \<and> starts_with s sub)"

fun str_in :: "pystr \<Rightarrow> pystr \<Rightarrow> bool" where
  "str_in sub [] = (sub = [])"
| "str_in sub (d # s) = (starts_with (d # s) sub \<or> str_in sub s)"

text \<open>\<open>str(n)\<close> for a counter \<open>n\<close> (an \<open>int\<close> that starts at 0 and is only incremented).\<close>

fun str_nat :: "nat \<Rightarrow> pystr" where
  "str_nat n = (if n < 10 then [48 + n] else str_nat (n div 10) @ [48 + n mod 10])"

declare str_nat.simps [simp del]

definition str_bool :: "bool \<Rightarrow> pystr" where
  "str_bool b = (if b then ascii ''True'' else ascii ''False'')"

section \<open>Python floats\<close>

text \<open>
  A \<open>float\<close> is an IEEE 754 binary64 value: \<open>Finite q\<close> is the double whose value is the
  rational \<open>q\<close> (the two zeros, which are equal under \<open>==\<close>, are one value), next to the
  two infinities and not-a-number. \<open>round_double\<close> rounds a rational to the nearest
  double, ties to even: 53 significant bits, exponents from -1022 to 1023, subnormals
  below, and infinity from \<open>2^1024 - 2^970\<close> on.
\<close>

datatype pyfloat = Finite rat | PosInf | NegInf | NaN

definition pow2 :: "int \<Rightarrow> rat" where
  "pow2 k = (if 0 \<le> k then 2 ^ nat k else 1 / 2 ^ nat (- k))"

fun bit_length :: "nat \<Rightarrow> nat" where
  "bit_length n = (if n = 0 then 0 else Suc (bit_length (n div 2)))"

declare bit_length.simps [simp del]

text \<open>\<open>ilog2 a\<close> is the integer \<open>e\<close> with \<open>2^e \<le> a < 2^(e+1)\<close>, for \<open>a > 0\<close>.\<close>

definition ilog2 :: "rat \<Rightarrow> int" where
  "ilog2 a = (if 1 \<le> a then int (bit_length (nat \<lfloor>a\<rfloor>)) - 1
              else - int (bit_length (nat (\<lceil>1 / a\<rceil> - 1))))"

definition round_half_even :: "rat \<Rightarrow> int" where
  "round_half_even x =
     (let f = \<lfloor>x\<rfloor>; d = x - of_int f
      in if d < 1 / 2 then f else if 1 / 2 < d then f + 1 else if even f then f else f + 1)"

definition round_double :: "rat \<Rightarrow> pyfloat" where
  "round_double q =
     (if q = 0 then Finite 0
      else
        let a = \<bar>q\<bar>;
            u = pow2 (max (ilog2 a) (- 1022) - 52);
            r = of_int (round_half_even (a / u)) * u
        in if 2 ^ 1024 \<le> r then (if q < 0 then NegInf else PosInf)
           else Finite (if q < 0 then - r else r))"

text \<open>\<open>abs(x)\<close>, \<open>x < y\<close> and \<open>x <= y\<close> on floats; a comparison with nan is false.\<close>

fun float_abs :: "pyfloat \<Rightarrow> pyfloat" where
  "float_abs (Finite q) = Finite \<bar>q\<bar>"
| "float_abs PosInf = PosInf"
| "float_abs NegInf = PosInf"
| "float_abs NaN = NaN"

fun float_lt :: "pyfloat \<Rightarrow> pyfloat \<Rightarrow> bool" where
  "float_lt NaN y = False"
| "float_lt x NaN = False"
| "float_lt x NegInf = False"
| "float_lt PosInf y = False"
| "float_lt NegInf y = True"
| "float_lt (Finite p) PosInf = True"
| "float_lt (Finite p) (Finite q) = (p < q)"

fun float_le :: "pyfloat \<Rightarrow> pyfloat \<Rightarrow> bool" where
  "float_le NaN y = False"
| "float_le x NaN = False"
| "float_le NegInf y = True"
| "float_le x PosInf = True"
| "float_le PosInf y = False"
| "float_le (Finite p) NegInf = False"
| "float_le (Finite p) (Finite q) = (p \<le> q)"

text \<open>\<open>x / d\<close> for a float \<open>x\<close> and a finite divisor \<open>d > 0\<close>.\<close>

fun float_div :: "pyfloat \<Rightarrow> rat \<Rightarrow> pyfloat" where
  "float_div (Finite q) d = round_double (q / d)"
| "float_div PosInf d = PosInf"
| "float_div NegInf d = NegInf"
| "float_div NaN d = NaN"

subsection \<open>The builtin \<open>float(s)\<close> on a string\<close>

text \<open>
  CPython converts a string in these steps, each failing with \<open>ValueError\<close> (\<open>None\<close>
  here):
  \<^enum> every code point from 127 on is replaced by a space when it is whitespace and by
    its ASCII digit when it is a Unicode decimal digit; any other one fails;
  \<^enum> an underscore is allowed between two digits only, and is dropped;
  \<^enum> ASCII whitespace is removed at both ends;
  \<^enum> what remains is an optional sign followed by \<open>inf\<close>, \<open>infinity\<close> or \<open>nan\<close> in any
    case, or by a decimal number: digits with an optional point (at least one digit),
    then an optional exponent \<open>e\<close> or \<open>E\<close>, optional sign, digits;
  \<^enum> the number is rounded to the nearest double (a too large one gives infinity).

  \<open>decimal_starts\<close> lists the zero digit of each of the 66 decimal digit ranges of
  Unicode 14.0, the version of the interpreter's tables (Python 3.11).
\<close>

definition decimal_starts :: "nat list" where
  "decimal_starts =
     [48, 1632, 1776, 1984, 2406, 2534, 2662, 2790, 2918, 3046, 3174, 3302, 3430, 3558,
      3664, 3792, 3872, 4160, 4240, 6112, 6160, 6470, 6608, 6784, 6800, 6992, 7088, 7232,
      7248, 42528, 43216, 43264, 43472, 43504, 43600, 44016, 65296, 66720, 68912, 69734,
      69872, 69942, 70096, 70384, 70736, 70864, 71248, 71360, 71472, 71904, 72016, 72784,
      73040, 73120, 92768, 92864, 93008, 120782, 120792, 120802, 120812, 120822, 123200,
      123632, 125264, 130032]"

definition to_decimal :: "nat \<Rightarrow> nat option" where
  "to_decimal c = map_option (\<lambda>s. c - s) (find (\<lambda>s. s \<le> c \<and> c < s + 10) decimal_starts)"

definition transform_cp :: "nat \<Rightarrow> nat option" where
  "transform_cp c =
     (if c < 127 then Some c
      else if isspace c then Some 32
      else map_option (\<lambda>d. 48 + d) (to_decimal c))"

definition transform_decimal_and_space :: "pystr \<Rightarrow> pystr option" where
  "transform_decimal_and_space s = those (map transform_cp s)"

definition is_digit :: "nat \<Rightarrow> bool" where
  "is_digit c \<longleftrightarrow> 48 \<le> c \<and> c \<le> 57"

definition c_isspace :: "nat \<Rightarrow> bool" where
  "c_isspace c \<longleftrightarrow> c = 32 \<or> (9 \<le> c \<and> c \<le> 13)"

fun underscores_ok :: "nat \<Rightarrow> pystr \<Rightarrow> bool" where
  "underscores_ok prev [] = (prev \<noteq> 95)"
| "underscores_ok prev (c # cs) =
     ((if c = 95 then is_digit prev else (prev = 95 \<longrightarrow> is_digit c)) \<and> underscores_ok c cs)"

definition digits_val :: "pystr \<Rightarrow> nat" where
  "digits_val ds = foldl (\<lambda>a c. 10 * a + (c - 48)) 0 ds"

definition pow10 :: "int \<Rightarrow> rat" where
  "pow10 k = (if 0 \<le> k then 10 ^ nat k else 1 / 10 ^ nat (- k))"

text \<open>An optional sign: whether it is a minus, and the rest.\<close>

fun split_sign :: "pystr \<Rightarrow> bool \<times> pystr" where
  "split_sign [] = (False, [])"
| "split_sign (c # cs) = (if c = 45 then (True, cs) else if c = 43 then (False, cs) else (False, c # cs))"

text \<open>The exponent part, empty or the whole rest of the string.\<close>

fun parse_exponent :: "pystr \<Rightarrow> int option" where
  "parse_exponent [] = Some 0"
| "parse_exponent (c # cs) =
     (if c = 101 \<or> c = 69 then
        (case split_sign cs of (neg, ds) \<Rightarrow>
           if ds \<noteq> [] \<and> list_all is_digit ds
           then Some (if neg then - int (digits_val ds) else int (digits_val ds))
           else None)
      else None)"

definition parse_number :: "pystr \<Rightarrow> rat option" where
  "parse_number s =
     (let ip = takeWhile is_digit s;
          r1 = dropWhile is_digit s;
          fp = (case r1 of [] \<Rightarrow> [] | c # r \<Rightarrow> if c = 46 then takeWhile is_digit r else []);
          r2 = (case r1 of [] \<Rightarrow> [] | c # r \<Rightarrow> if c = 46 then dropWhile is_digit r else r1)
      in if ip = [] \<and> fp = [] then None
         else map_option (\<lambda>e. of_nat (digits_val (ip @ fp)) * pow10 (e - int (length fp)))
                (parse_exponent r2))"

definition float_of_str :: "pystr \<Rightarrow> pyfloat option" where
  "float_of_str s =
     (case transform_decimal_and_space s of
        None \<Rightarrow> None
      | Some t \<Rightarrow>
          if \<not> underscores_ok 0 t then None
          else
            let u = filter (\<lambda>c. c \<noteq> 95) t;
                v = rev (dropWhile c_isspace (rev (dropWhile c_isspace u)))
            in case split_sign v of (neg, body) \<Rightarrow>
                 if lower body = ascii ''inf'' \<or> lower body = ascii ''infinity''
                 then Some (if neg then NegInf else PosInf)
                 else if lower body = ascii ''nan'' then Some NaN
                 else map_option (\<lambda>q. round_double (if neg then - q else q)) (parse_number body))"

section \<open>Text and number normalizers\<close>

datatype element = Element (tag: pystr) (elem_text: "pystr option") (children: "element list")

text \<open>\<open>_safe_text\<close>: the argument is \<open>None\<close> or an element, whose text may be \<open>None\<close>.\<close>

definition safe_text :: "element option \<Rightarrow> pystr" where
  "safe_text elem =
     (case elem of
        None \<Rightarrow> []
      | Some e \<Rightarrow> (case elem_text e of None \<Rightarrow> [] | Some t \<Rightarrow> strip t))"

text \<open>
  \<open>_parse_float\<close>: \<open>None\<close> for an empty string after stripping, and for a string on
  which \<open>float\<close> raises \<open>ValueError\<close>.
\<close>

definition parse_float :: "pystr \<Rightarrow> pyfloat option" where
  "parse_float s =
     (let s' = strip s
      in if s' = [] then None
         else (case float_of_str s' of Some v \<Rightarrow> Some v | None \<Rightarrow> None))"

section \<open>Coordinate normalizer\<close>

text \<open>\<open>_normalize_lng_lat\<close>: the pair \<open>(lng, lat)\<close>, both \<open>None\<close> when one does not parse.\<close>

definition normalize_lng_lat :: "pystr \<Rightarrow> pystr \<Rightarrow> pyfloat option \<times> pyfloat option" where
  "normalize_lng_lat x_raw y_raw =
     (case (parse_float x_raw, parse_float y_raw) of
        (Some x, Some y) \<Rightarrow>
          (let x' = (if float_lt (Finite 1000) (float_abs x) then float_div x 1000000 else x);
               y' = (if float_lt (Finite 1000) (float_abs y) then float_div y 1000000 else y)
           in (Some x', Some y'))
      | _ \<Rightarrow> (None, None))"

section \<open>Streaming record extractor\<close>

text \<open>
  What the parser finds at the input path: no file, a document that is not well-formed
  (given by the subtrees that are complete before the syntax error, in document order),
  or a well-formed document (given by its root element).
\<close>

datatype error = FileNotFoundError | ParseError

datatype xml_file = NoSuchFile | NotWellFormed "element list" | WellFormed element

type_synonym store = "pystr \<rightharpoonup> pystr"

text \<open>\<open>_element_to_dict_case_insensitive\<close>: a later child with the same key wins.\<close>

definition element_to_dict_case_insensitive :: "element \<Rightarrow> store" where
  "element_to_dict_case_insensitive parent =
     foldl (\<lambda>out child. out(lower (strip (tag child)) \<mapsto> safe_text (Some child)))
       Map.empty (children parent)"

definition is_geoposition :: "element \<Rightarrow> bool" where
  "is_geoposition elem \<longleftrightarrow> lower (strip (tag elem)) = ascii ''geoposition''"

text \<open>
  \<open>iterparse\<close> with \<open>events=("end",)\<close> hands over every element when its end tag is
  read, children before their parent. \<open>end_events e\<close> gives the dicts that
  \<open>iter_711_stores\<close> yields while the subtree \<open>e\<close> is read, and the subtree as it is
  left afterwards: \<open>elem.clear()\<close> has removed the text and the children of a yielded
  element, which its parent then sees.
\<close>

fun end_events :: "element \<Rightarrow> store list \<times> element" where
  "end_events (Element t x cs) =
     (let rs = map end_events cs;
          elem = Element t x (map snd rs)
      in if is_geoposition elem
         then (concat (map fst rs) @ [element_to_dict_case_insensitive elem], Element t None [])
         else (concat (map fst rs), elem))"

text \<open>
  \<open>iter_711_stores\<close>: the dicts yielded, and the exception that ends the iteration, if
  any.
\<close>

fun iter_711_stores :: "xml_file \<Rightarrow> store list \<times> error option" where
  "iter_711_stores NoSuchFile = ([], Some FileNotFoundError)"
| "iter_711_stores (NotWellFormed es) = (concat (map (fst \<circ> end_events) es), Some ParseError)"
| "iter_711_stores (WellFormed doc) = (fst (end_events doc), None)"

section \<open>Record mapper\<close>

text \<open>A value of a row: a string, a float or a boolean.\<close>

datatype cell = CStr pystr | CFloat pyfloat | CBool bool

text \<open>
  The two dicts that \<open>build_location_row\<close> returns have the fixed keys of their
  literals; they are records with one field per key. Only \<open>lat\<close> and \<open>lng\<close> hold
  values of more than one type (a float, or the empty string).
\<close>

record prisma_row =
  name :: pystr
  description :: pystr
  type :: pystr
  lat :: cell
  lng :: cell
  floor_field :: pystr
  hasTissue :: bool
  hasDryer :: bool
  hasSeat :: bool
  hasDiaperTable :: bool
  hasWaterDispenser :: bool
  hasAutoDoor :: bool
  hasHandrail :: bool

record debug_row =
  source :: pystr
  poiid :: pystr
  poiname :: pystr
  address :: pystr
  telno :: pystr
  op_time :: pystr
  services :: pystr
  x_raw :: pystr
  y_raw :: pystr
  has_toilet_service_tag :: bool

text \<open>\<open>d.get(k, dflt)\<close> and \<open>s or t\<close> on strings.\<close>

definition dict_get :: "store \<Rightarrow> pystr \<Rightarrow> pystr \<Rightarrow> pystr" where
  "dict_get d k dflt = (case d k of None \<Rightarrow> dflt | Some v \<Rightarrow> v)"

definition str_or :: "pystr \<Rightarrow> pystr \<Rightarrow> pystr" where
  "str_or s t = (if s \<noteq> [] then s else t)"

fun join :: "pystr \<Rightarrow> pystr list \<Rightarrow> pystr" where
  "join sep [] = []"
| "join sep [p] = p"
| "join sep (p # q # ps) = p @ sep @ join sep (q # ps)"

text \<open>The literals with code points beyond ASCII, as the source file has them.\<close>

definition toilet_tag :: pystr where
  "toilet_tag = [48, 50, 24257, 25152]"

definition label_address :: pystr where
  "label_address = [22320, 22336, 65306]"

definition label_tel :: pystr where
  "label_tel = [38651, 35441, 65306]"

definition label_op_time :: pystr where
  "label_op_time = [29151, 26989, 26178, 38291, 65306]"

definition separator :: pystr where
  "separator = [65307]"

definition build_location_row :: "store \<Rightarrow> prisma_row \<times> debug_row" where
  "build_location_row store =
     (let poiid_v = dict_get store (ascii ''poiid'') [];
          name_v = strip (dict_get store (ascii ''poiname'') []);
          address_v = strip (dict_get store (ascii ''address'') []);
          tel = strip (dict_get store (ascii ''telno'') []);
          op_time_v = strip (dict_get store (ascii ''op_time'') []);
          services_v = strip (dict_get store (ascii ''storeimagetitle'') []);
          lng_lat = normalize_lng_lat (dict_get store (ascii ''x'') []) (dict_get store (ascii ''y'') []);
          has_toilet = str_in toilet_tag (str_or services_v []);
          desc_parts =
            (if address_v \<noteq> [] then [label_address @ address_v] else []) @
            (if tel \<noteq> [] then [label_tel @ tel] else []) @
            (if op_time_v \<noteq> [] then [label_op_time @ op_time_v] else []);
          description_v = (if desc_parts \<noteq> [] then Some (join separator desc_parts @ separator) else None)
      in (\<lparr>name = (if name_v \<noteq> [] then ascii ''7-ELEVEN '' @ name_v else ascii ''7-ELEVEN''),
           description = (case description_v of None \<Rightarrow> [] | Some d \<Rightarrow> str_or d []),
           type = ascii ''TOILET'',
           lat = (case snd lng_lat of Some v \<Rightarrow> CFloat v | None \<Rightarrow> CStr []),
           lng = (case fst lng_lat of Some v \<Rightarrow> CFloat v | None \<Rightarrow> CStr []),
           floor_field = [],
           hasTissue = False,
           hasDryer = False,
           hasSeat = False,
           hasDiaperTable = False,
           hasWaterDispenser = False,
           hasAutoDoor = False,
           hasHandrail = False\<rparr>,
          \<lparr>source = ascii ''7-ELEVEN iMapSDKOutput'',
           poiid = poiid_v,
           poiname = name_v,
           address = address_v,
           telno = tel,
           op_time = op_time_v,
           services = services_v,
           x_raw = dict_get store (ascii ''x'') [],
           y_raw = dict_get store (ascii ''y'') [],
           has_toilet_service_tag = has_toilet\<rparr>))"

section \<open>Export pipeline\<close>

text \<open>
  \<open>float(v)\<close> on a value of a row: \<open>None\<close> is the \<open>ValueError\<close> of a string that is not a
  number.
\<close>

fun float_of_cell :: "cell \<Rightarrow> pyfloat option" where
  "float_of_cell (CStr s) = float_of_str s"
| "float_of_cell (CFloat v) = Some v"
| "float_of_cell (CBool b) = Some (Finite (if b then 1 else 0))"

definition prisma_fields :: "pystr list" where
  "prisma_fields =
     map ascii [''name'', ''description'', ''type'', ''lat'', ''lng'', ''floor'', ''hasTissue'',
       ''hasDryer'', ''hasSeat'', ''hasDiaperTable'', ''hasWaterDispenser'', ''hasAutoDoor'',
       ''hasHandrail'']"

definition debug_fields :: "pystr list" where
  "debug_fields =
     map ascii [''source'', ''poiid'', ''poiname'', ''address'', ''telno'', ''op_time'',
       ''services'', ''x_raw'', ''y_raw'', ''has_toilet_service_tag'']"

text \<open>The values of a row in the order of the field names, as \<open>writerow\<close> reads them.\<close>

definition prisma_cells :: "prisma_row \<Rightarrow> cell list" where
  "prisma_cells r =
     [CStr (name r), CStr (description r), CStr (type r), lat r, lng r, CStr (floor_field r),
      CBool (hasTissue r), CBool (hasDryer r), CBool (hasSeat r), CBool (hasDiaperTable r),
      CBool (hasWaterDispenser r), CBool (hasAutoDoor r), CBool (hasHandrail r)]"

definition debug_cells :: "debug_row \<Rightarrow> cell list" where
  "debug_cells r =
     [CStr (source r), CStr (poiid r), CStr (poiname r), CStr (address r), CStr (telno r),
      CStr (op_time r), CStr (services r), CStr (x_raw r), CStr (y_raw r),
      CBool (has_toilet_service_tag r)]"

text \<open>
  The local variables of \<open>export_csv\<close> that the loop changes, with the data rows
  written so far and the lines printed so far.
\<close>

record export_state =
  total :: nat
  written :: nat
  missing_coord :: nat
  suspicious_coord :: nat
  csv_rows :: "cell list list"
  printed :: "pystr list"

definition dash_line :: pystr where
  "dash_line = replicate 60 45"

text \<open>
  The coordinate bookkeeping of the loop body, on the \<open>lat\<close> and \<open>lng\<close> of the row; an
  exception of \<open>float\<close> is caught and nothing is counted.
\<close>

definition count_coord :: "cell \<Rightarrow> cell \<Rightarrow> export_state \<Rightarrow> export_state" where
  "count_coord lat_v lng_v st =
     (if lat_v = CStr [] \<or> lng_v = CStr [] then st\<lparr>missing_coord := missing_coord st + 1\<rparr>
      else
        (case float_of_cell lat_v of
           None \<Rightarrow> st
         | Some lat_f \<Rightarrow>
             (case float_of_cell lng_v of
                None \<Rightarrow> st
              | Some lng_f \<Rightarrow>
                  if \<not> (float_le (Finite 20) lat_f \<and> float_le lat_f (Finite 27) \<and>
                         float_le (Finite 118) lng_f \<and> float_le lng_f (Finite (247 / 2)))
                  then st\<lparr>suspicious_coord := suspicious_coord st + 1\<rparr>
                  else st)))"

text \<open>One pass of the loop body, for the dict \<open>store\<close>.\<close>

definition export_store :: "bool \<Rightarrow> bool \<Rightarrow> export_state \<Rightarrow> store \<Rightarrow> export_state" where
  "export_store only_toilets include_debug st store =
     (let st1 = st\<lparr>total := total st + 1\<rparr>;
          rows = build_location_row store;
          services_v = str_or (services (snd rows)) [];
          has_toilet = str_in toilet_tag services_v
      in if only_toilets \<and> \<not> has_toilet then st1
         else
           let st2 = count_coord (lat (fst rows)) (lng (fst rows)) st1;
               row = prisma_cells (fst rows) @ (if include_debug then debug_cells (snd rows) else [])
           in st2\<lparr>csv_rows := csv_rows st2 @ [row],
                   written := written st2 + 1,
                   printed := printed st2 @ [dash_line]\<rparr>)"

text \<open>The lines printed after the loop.\<close>

definition summary_lines :: "pystr \<Rightarrow> pystr \<Rightarrow> bool \<Rightarrow> export_state \<Rightarrow> pystr list" where
  "summary_lines input_xml output_csv only_toilets st =
     [[9989] @ ascii '' Input XML: '' @ input_xml,
      [9989] @ ascii '' Output CSV: '' @ output_csv,
      [32317] @ ascii '' GeoPosition: '' @ str_nat (total st),
      [36664, 20986, 31558, 25976] @ ascii '': '' @ str_nat (written st) @
        ascii '' (only_toilets='' @ str_bool only_toilets @ ascii '')'',
      [32570, 23569, 24231, 27161, 31558, 25976] @ ascii '': '' @ str_nat (missing_coord st),
      [24231, 27161, 21487, 30097, 31558, 25976] @ ascii ''('' @
        [36229, 20986, 21488, 28771, 31684, 22285] @ ascii ''): '' @ str_nat (suspicious_coord st),
      dash_line] @
     (if 0 < missing_coord st
      then [[9888, 65039, 32, 26377, 20123, 38272, 24066, 32570, 23569, 24231, 27161, 27396,
             20301] @ ascii '' (X/Y)'' @ [12290, 21487, 29992, 35299, 27861, 35211, 19979,
             26041, 35498, 26126, 12290]]
      else [])"

text \<open>
  What a call of \<open>export_csv\<close> leaves: how it ends (\<open>Inr ()\<close> is the return of \<open>None\<close>,
  the function has no \<open>return\<close> statement; \<open>Inl e\<close> is the exception \<open>e\<close> of the
  iteration, which the function does not catch), the header and the data rows of the
  output file, the lines printed, and the loop variables at that moment.
\<close>

record export_result =
  outcome :: "error + unit"
  csv_header :: "pystr list"
  csv_data :: "cell list list"
  stdout :: "pystr list"
  final :: export_state

text \<open>
  \<open>export_csv\<close>. \<open>file\<close> is what the parser finds at \<open>input_xml\<close> when the loop starts;
  the output file has been opened and its header written by then.
\<close>

definition export_csv :: "pystr \<Rightarrow> xml_file \<Rightarrow> pystr \<Rightarrow> bool \<Rightarrow> bool \<Rightarrow> export_result" where
  "export_csv input_xml file output_csv only_toilets include_debug =
     (let st0 = \<lparr>total = 0, written = 0, missing_coord = 0, suspicious_coord = 0,
                 csv_rows = [], printed = []\<rparr>;
          fieldnames = prisma_fields @ (if include_debug then debug_fields else []);
          it = iter_711_stores file;
          st = foldl (export_store only_toilets include_debug) st0 (fst it)
      in case snd it of
           Some e \<Rightarrow>
             \<lparr>outcome = Inl e, csv_header = fieldnames, csv_data = csv_rows st,
              stdout = printed st, final = st\<rparr>
         | None \<Rightarrow>
             \<lparr>outcome = Inr (), csv_header = fieldnames, csv_data = csv_rows st,
              stdout = printed st @ summary_lines input_xml output_csv only_toilets st,
              final = st\<rparr>)"

section \<open>Notions of the specification\<close>

text \<open>The number of target elements of a document: those named \<open>GeoPosition\<close> in any case.\<close>

fun count_targets :: "element \<Rightarrow> nat" where
  "count_targets (Element t x cs) =
     (if lower (strip t) = ascii ''geoposition'' then 1 else 0) + sum_list (map count_targets cs)"

text \<open>A dict passes the filter of the export: every one, or only those with the tag.\<close>

definition passes_filter :: "bool \<Rightarrow> store \<Rightarrow> bool" where
  "passes_filter only_toilets store \<longleftrightarrow>
     \<not> only_toilets \<or> has_toilet_service_tag (snd (build_location_row store))"

text \<open>
  A pair of parsed values lies outside the range of Taiwan: the latitude is not within
  20.0 and 27.0, or the longitude is not within 118.0 and 123.5.
\<close>

definition outside_taiwan :: "pyfloat \<Rightarrow> pyfloat \<Rightarrow> bool" where
  "outside_taiwan lat_f lng_f \<longleftrightarrow>
     \<not> (float_le (Finite 20) lat_f \<and> float_le lat_f (Finite 27)) \<or>
     \<not> (float_le (Finite 118) lng_f \<and> float_le lng_f (Finite (247 / 2)))"

text \<open>A row misses its coordinates; a row has coordinates, which parse and are suspicious.\<close>

definition missing_row :: "prisma_row \<Rightarrow> bool" where
  "missing_row r \<longleftrightarrow> lat r = CStr [] \<or> lng r = CStr []"

definition suspicious_row :: "prisma_row \<Rightarrow> bool" where
  "suspicious_row r \<longleftrightarrow>
     lat r \<noteq> CStr [] \<and> lng r \<noteq> CStr [] \<and>
     (case (float_of_cell (lat r), float_of_cell (lng r)) of
        (Some a, Some b) \<Rightarrow> outside_taiwan a b
      | _ \<Rightarrow> False)"

section \<open>Example inputs\<close>

text \<open>
  A document with two target elements: one with the tag in its service text and
  coordinates in micro-degrees, one without service text and without \<open>Y\<close>; and the two
  dicts that the extractor yields for it.
\<close>

definition example_doc :: element where
  "example_doc =
     Element (ascii ''iMapSDKOutput'') None
       [Element (ascii ''GeoPosition'') None
          [Element (ascii ''POIName'') (Some (ascii '' A '')) [],
           Element (ascii ''X'') (Some (ascii ''121532554'')) [],
           Element (ascii ''Y'') (Some (ascii ''25017604'')) [],
           Element (ascii ''StoreImageTitle'') (Some (ascii ''01ATM,'' @ toilet_tag)) []],
        Element (ascii ''GeoPosition'') None
          [Element (ascii ''POIName'') (Some (ascii ''B'')) [],
           Element (ascii ''X'') (Some (ascii ''121532554'')) []]]"

definition example_store_1 :: store where
  "example_store_1 =
     [ascii ''poiname'' \<mapsto> ascii ''A'', ascii ''x'' \<mapsto> ascii ''121532554'',
      ascii ''y'' \<mapsto> ascii ''25017604'', ascii ''storeimagetitle'' \<mapsto> ascii ''01ATM,'' @ toilet_tag]"

definition example_store_2 :: store where
  "example_store_2 = [ascii ''poiname'' \<mapsto> ascii ''B'', ascii ''x'' \<mapsto> ascii ''121532554'']"

text \<open>A document whose only record has the coordinate texts \<open>inf\<close> and \<open>nan\<close>.\<close>

definition inf_doc :: element where
  "inf_doc =
     Element (ascii ''iMapSDKOutput'') None
       [Element (ascii ''GeoPosition'') None
          [Element (ascii ''X'') (Some (ascii ''inf'')) [],
           Element (ascii ''Y'') (Some (ascii ''nan'')) []]]"

definition inf_store :: store where
  "inf_store = [ascii ''x'' \<mapsto> ascii ''inf'', ascii ''y'' \<mapsto> ascii ''nan'']"

section \<open>Evaluation on literals\<close>

lemma bit_length_0: "bit_length 0 = 0"
  by (simp add: bit_length.simps)

lemma bit_length_1: "bit_length (Suc 0) = Suc 0"
  by (simp add: bit_length.simps)

lemma bit_length_numeral: "bit_length (numeral n) = Suc (bit_length (numeral n div 2))"
  by (subst bit_length.simps) simp

lemma floor_rat_numeral_div: "\<lfloor>numeral a / numeral b :: rat\<rfloor> = numeral a div numeral b"
  using floor_divide_of_int_eq [of "numeral a" "numeral b", where ?'a = rat] by simp

lemma ceiling_rat_numeral_div:
  "\<lceil>numeral a / numeral b :: rat\<rceil> = - (- numeral a div numeral b)"
  unfolding ceiling_def
  using floor_divide_of_int_eq [of "- numeral a" "numeral b", where ?'a = rat] by simp

lemmas float_eval =
  ascii_def isspace_def strip_def lower_cp_def lower_def
  pow2_def ilog2_def round_half_even_def round_double_def Let_def
  bit_length_0 bit_length_1 bit_length_numeral floor_rat_numeral_div ceiling_rat_numeral_div
  to_decimal_def transform_cp_def transform_decimal_and_space_def is_digit_def c_isspace_def
  digits_val_def pow10_def parse_number_def float_of_str_def parse_float_def

lemma strip_Nil: "strip [] = []"
  by (simp add: strip_def)

lemma parse_float_Nil: "parse_float [] = None"
  by (simp add: parse_float_def strip_Nil)

lemma parse_float_abc: "parse_float (ascii ''abc'') = None"
  by (simp add: float_eval)

lemma parse_float_25: "parse_float (ascii ''25'') = Some (Finite 25)"
  by (simp add: float_eval)

section \<open>Coordinate normalizer: properties\<close>

lemma normalize_None:
  "parse_float x_str = None \<or> parse_float y_str = None \<Longrightarrow>
   normalize_lng_lat x_str y_str = (None, None)"
  by (auto simp: normalize_lng_lat_def split: option.splits)

lemma normalize_Some:
  "parse_float x_str = Some x \<Longrightarrow> parse_float y_str = Some y \<Longrightarrow>
   normalize_lng_lat x_str y_str =
     (Some (if float_lt (Finite 1000) (float_abs x) then float_div x 1000000 else x),
      Some (if float_lt (Finite 1000) (float_abs y) then float_div y 1000000 else y))"
  by (simp add: normalize_lng_lat_def Let_def)

lemma build_lat:
  "lat (fst (build_location_row store)) =
     (case snd (normalize_lng_lat (dict_get store (ascii ''x'') []) (dict_get store (ascii ''y'') [])) of
        Some v \<Rightarrow> CFloat v | None \<Rightarrow> CStr [])"
  by (simp add: build_location_row_def Let_def)

lemma build_lng:
  "lng (fst (build_location_row store)) =
     (case fst (normalize_lng_lat (dict_get store (ascii ''x'') []) (dict_get store (ascii ''y'') [])) of
        Some v \<Rightarrow> CFloat v | None \<Rightarrow> CStr [])"
  by (simp add: build_location_row_def Let_def)

text \<open>
  C1. When one of the two raw coordinate strings does not parse (the empty string does
  not, nor does one that is not a number), the normalizer returns \<open>(None, None)\<close>; on no
  input is exactly one of longitude and latitude present; and the row built from a dict
  with such \<open>x\<close> and \<open>y\<close> has both \<open>lat\<close> and \<open>lng\<close> empty.
\<close>

theorem coordinates_both_or_neither:
  "parse_float x_str = None \<or> parse_float y_str = None \<Longrightarrow>
   normalize_lng_lat x_str y_str = (None, None) \<and>
   parse_float [] = None \<and>
   (fst (normalize_lng_lat a b) = None \<longleftrightarrow> snd (normalize_lng_lat a b) = None) \<and>
   (\<forall>store. dict_get store (ascii ''x'') [] = x_str \<and> dict_get store (ascii ''y'') [] = y_str \<longrightarrow>
      lat (fst (build_location_row store)) = CStr [] \<and>
      lng (fst (build_location_row store)) = CStr [])"
proof (intro conjI allI impI)
  assume h: "parse_float x_str = None \<or> parse_float y_str = None"
  show "normalize_lng_lat x_str y_str = (None, None)"
    using h by (rule normalize_None)
  show "parse_float [] = None"
    by (rule parse_float_Nil)
  show "fst (normalize_lng_lat a b) = None \<longleftrightarrow> snd (normalize_lng_lat a b) = None"
    by (cases "parse_float a"; cases "parse_float b") (simp_all add: normalize_None normalize_Some)
  fix store
  assume "dict_get store (ascii ''x'') [] = x_str \<and> dict_get store (ascii ''y'') [] = y_str"
  then show "lat (fst (build_location_row store)) = CStr []"
    and "lng (fst (build_location_row store)) = CStr []"
    using normalize_None [OF h] by (simp_all add: build_lat build_lng)
qed

theorem coordinates_both_or_neither_witness:
  "(parse_float (ascii ''abc'') = None \<or> parse_float (ascii ''25'') = None) \<and>
   normalize_lng_lat (ascii ''abc'') (ascii ''25'') = (None, None) \<and>
   lat (fst (build_location_row [ascii ''x'' \<mapsto> ascii ''abc'', ascii ''y'' \<mapsto> ascii ''25''])) = CStr [] \<and>
   lng (fst (build_location_row [ascii ''x'' \<mapsto> ascii ''abc'', ascii ''y'' \<mapsto> ascii ''25''])) = CStr []"
proof -
  have h: "parse_float (ascii ''abc'') = None \<or> parse_float (ascii ''25'') = None"
    by (simp add: parse_float_abc)
  have g: "dict_get [ascii ''x'' \<mapsto> ascii ''abc'', ascii ''y'' \<mapsto> ascii ''25''] (ascii ''x'') [] = ascii ''abc'' \<and>
           dict_get [ascii ''x'' \<mapsto> ascii ''abc'', ascii ''y'' \<mapsto> ascii ''25''] (ascii ''y'') [] = ascii ''25''"
    by (simp add: dict_get_def ascii_def)
  from coordinates_both_or_neither [OF h] g h show ?thesis
    by blast
qed

section \<open>Strings: containment and stripping\<close>

lemma starts_with_iff: "starts_with s sub \<longleftrightarrow> (\<exists>ss. s = sub @ ss)"
  by (induction s sub rule: starts_with.induct) auto

lemma str_in_iff: "str_in sub s \<longleftrightarrow> (\<exists>ps ss. s = ps @ sub @ ss)"
proof (induction s)
  case Nil
  then show ?case by auto
next
  case (Cons d s)
  show ?case
  proof
    assume "str_in sub (d # s)"
    then consider "starts_with (d # s) sub" | "str_in sub s" by auto
    then show "\<exists>ps ss. d # s = ps @ sub @ ss"
    proof cases
      case 1
      then obtain ss where "d # s = sub @ ss" by (auto simp: starts_with_iff)
      then have "d # s = [] @ sub @ ss" by simp
      then show ?thesis by blast
    next
      case 2
      then obtain ps ss where "s = ps @ sub @ ss" using Cons.IH by blast
      then have "d # s = (d # ps) @ sub @ ss" by simp
      then show ?thesis by blast
    qed
  next
    assume "\<exists>ps ss. d # s = ps @ sub @ ss"
    then obtain ps ss where eq: "d # s = ps @ sub @ ss" by blast
    show "str_in sub (d # s)"
    proof (cases ps)
      case Nil
      then have "starts_with (d # s) sub" using eq by (auto simp: starts_with_iff)
      then show ?thesis by simp
    next
      case (Cons p ps')
      then have "s = ps' @ sub @ ss" using eq by simp
      then have "str_in sub s" using Cons.IH by blast
      then show ?thesis by simp
    qed
  qed
qed

lemma dropWhile_keeps:
  "m \<noteq> [] \<Longrightarrow> \<not> P (hd m) \<Longrightarrow> \<exists>ps'. dropWhile P (ps @ m @ ss) = ps' @ m @ ss"
proof (induction ps)
  case Nil
  then have "dropWhile P (m @ ss) = m @ ss" by (cases m) auto
  then show ?case by (metis append_Nil)
next
  case (Cons p ps)
  then show ?case by (cases "P p") (auto intro: exI [of _ "p # ps"])
qed

lemma dropWhile_part: "\<exists>a. s = a @ dropWhile P s"
  by (metis takeWhile_dropWhile_id)

lemma strip_part: "\<exists>a b. s = a @ strip s @ b"
proof -
  obtain a where a: "s = a @ dropWhile isspace s" using dropWhile_part by blast
  obtain c where c: "rev (dropWhile isspace s) = c @ dropWhile isspace (rev (dropWhile isspace s))"
    using dropWhile_part by blast
  have "dropWhile isspace s = strip s @ rev c"
    using arg_cong [OF c, of rev] by (simp add: strip_def)
  with a show ?thesis by metis
qed

lemma strip_keeps:
  assumes "m \<noteq> []" "\<not> isspace (hd m)" "\<not> isspace (last m)"
  shows "\<exists>ps' ss'. strip (ps @ m @ ss) = ps' @ m @ ss'"
proof -
  obtain p1 where p1: "dropWhile isspace (ps @ m @ ss) = p1 @ m @ ss"
    using dropWhile_keeps [of m isspace ps ss] assms by blast
  have "rev m \<noteq> []" "\<not> isspace (hd (rev m))"
    using assms by (simp_all add: hd_rev)
  then obtain p2 where p2: "dropWhile isspace (rev ss @ rev m @ rev p1) = p2 @ rev m @ rev p1"
    using dropWhile_keeps [of "rev m" isspace "rev ss" "rev p1"] by blast
  have "strip (ps @ m @ ss) = p1 @ m @ rev p2"
    by (simp add: strip_def p1 p2)
  then show ?thesis by blast
qed

lemma str_in_strip:
  assumes "m \<noteq> []" "\<not> isspace (hd m)" "\<not> isspace (last m)"
  shows "str_in m (strip s) \<longleftrightarrow> str_in m s"
proof
  assume "str_in m (strip s)"
  then obtain ps ss where "strip s = ps @ m @ ss" by (auto simp: str_in_iff)
  moreover obtain a b where "s = a @ strip s @ b" using strip_part by blast
  ultimately have "s = (a @ ps) @ m @ (ss @ b)" by simp
  then show "str_in m s" unfolding str_in_iff by blast
next
  assume "str_in m s"
  then obtain ps ss where "s = ps @ m @ ss" by (auto simp: str_in_iff)
  then show "str_in m (strip s)"
    using strip_keeps [OF assms, of ps ss] by (auto simp: str_in_iff)
qed

lemma toilet_tag_strip: "str_in toilet_tag (strip s) \<longleftrightarrow> str_in toilet_tag s"
  by (rule str_in_strip) (simp_all add: toilet_tag_def isspace_def)

lemma str_or_empty: "str_or s [] = s"
  by (simp add: str_or_def)

lemma build_tag:
  "has_toilet_service_tag (snd (build_location_row store)) =
     str_in toilet_tag (dict_get store (ascii ''storeimagetitle'') [])"
  by (simp add: build_location_row_def Let_def str_or_empty toilet_tag_strip)

lemma build_services:
  "services (snd (build_location_row store)) = strip (dict_get store (ascii ''storeimagetitle'') [])"
  by (simp add: build_location_row_def Let_def)

section \<open>The loop of the export\<close>

lemma count_coord_frame:
  "total (count_coord a b st) = total st"
  "written (count_coord a b st) = written st"
  "csv_rows (count_coord a b st) = csv_rows st"
  "printed (count_coord a b st) = printed st"
  by (simp_all add: count_coord_def split: option.splits)

lemma count_coord_missing:
  "missing_coord (count_coord a b st) = missing_coord st + (if a = CStr [] \<or> b = CStr [] then 1 else 0)"
  by (simp add: count_coord_def split: option.splits)

lemma count_coord_suspicious:
  "suspicious_coord (count_coord a b st) =
     suspicious_coord st +
     (if a \<noteq> CStr [] \<and> b \<noteq> CStr [] \<and>
         (case (float_of_cell a, float_of_cell b) of
            (Some u, Some v) \<Rightarrow> outside_taiwan u v | _ \<Rightarrow> False)
      then 1 else 0)"
  by (simp add: count_coord_def outside_taiwan_def split: option.splits)

lemma export_filter_is_tag:
  "str_in toilet_tag (str_or (services (snd (build_location_row store))) []) =
     has_toilet_service_tag (snd (build_location_row store))"
  by (simp add: build_tag build_services str_or_empty toilet_tag_strip)

lemma export_store_skip:
  "\<not> passes_filter only_toilets store \<Longrightarrow>
   export_store only_toilets include_debug st store = st\<lparr>total := total st + 1\<rparr>"
  by (simp add: export_store_def Let_def export_filter_is_tag passes_filter_def)

lemma export_store_keep:
  "passes_filter only_toilets store \<Longrightarrow>
   export_store only_toilets include_debug st store =
     (count_coord (lat (fst (build_location_row store))) (lng (fst (build_location_row store)))
        (st\<lparr>total := total st + 1\<rparr>))
     \<lparr>csv_rows := csv_rows st @
        [prisma_cells (fst (build_location_row store)) @
         (if include_debug then debug_cells (snd (build_location_row store)) else [])],
      written := written st + 1,
      printed := printed st @ [dash_line]\<rparr>"
  by (auto simp: export_store_def Let_def export_filter_is_tag passes_filter_def count_coord_frame)

lemma export_store_total:
  "total (export_store only_toilets include_debug st store) = total st + 1"
  by (cases "passes_filter only_toilets store")
     (simp_all add: export_store_skip export_store_keep count_coord_frame)

lemma export_store_written:
  "written (export_store only_toilets include_debug st store) =
     written st + (if passes_filter only_toilets store then 1 else 0)"
  by (cases "passes_filter only_toilets store")
     (simp_all add: export_store_skip export_store_keep)

lemma export_store_printed:
  "printed (export_store only_toilets include_debug st store) =
     printed st @ (if passes_filter only_toilets store then [dash_line] else [])"
  by (cases "passes_filter only_toilets store")
     (simp_all add: export_store_skip export_store_keep)

lemma export_store_rows:
  "csv_rows (export_store only_toilets include_debug st store) =
     csv_rows st @
     (if passes_filter only_toilets store
      then [prisma_cells (fst (build_location_row store)) @
            (if include_debug then debug_cells (snd (build_location_row store)) else [])]
      else [])"
  by (cases "passes_filter only_toilets store")
     (simp_all add: export_store_skip export_store_keep)

lemma export_store_missing:
  "missing_coord (export_store only_toilets include_debug st store) =
     missing_coord st +
     (if passes_filter only_toilets store \<and> missing_row (fst (build_location_row store))
      then 1 else 0)"
  by (cases "passes_filter only_toilets store")
     (simp_all add: export_store_skip export_store_keep count_coord_missing missing_row_def)

lemma export_store_suspicious:
  "suspicious_coord (export_store only_toilets include_debug st store) =
     suspicious_coord st +
     (if passes_filter only_toilets store \<and> suspicious_row (fst (build_location_row store))
      then 1 else 0)"
  by (cases "passes_filter only_toilets store")
     (simp_all add: export_store_skip export_store_keep count_coord_suspicious suspicious_row_def)

lemma loop_total:
  "total (foldl (export_store only_toilets include_debug) st stores) = total st + length stores"
  by (induction stores arbitrary: st) (simp_all add: export_store_total)

lemma loop_written:
  "written (foldl (export_store only_toilets include_debug) st stores) =
     written st + length (filter (passes_filter only_toilets) stores)"
  by (induction stores arbitrary: st) (simp_all add: export_store_written)

lemma loop_printed:
  "printed (foldl (export_store only_toilets include_debug) st stores) =
     printed st @ replicate (length (filter (passes_filter only_toilets) stores)) dash_line"
  by (induction stores arbitrary: st) (simp_all add: export_store_printed replicate_app_Cons_same)

lemma loop_rows:
  "csv_rows (foldl (export_store only_toilets include_debug) st stores) =
     csv_rows st @
     map (\<lambda>store. prisma_cells (fst (build_location_row store)) @
            (if include_debug then debug_cells (snd (build_location_row store)) else []))
       (filter (passes_filter only_toilets) stores)"
  by (induction stores arbitrary: st) (simp_all add: export_store_rows)

lemma loop_missing:
  "missing_coord (foldl (export_store only_toilets include_debug) st stores) =
     missing_coord st +
     length (filter (\<lambda>store. passes_filter only_toilets store \<and>
                       missing_row (fst (build_location_row store))) stores)"
  by (induction stores arbitrary: st) (simp_all add: export_store_missing)

lemma loop_suspicious:
  "suspicious_coord (foldl (export_store only_toilets include_debug) st stores) =
     suspicious_coord st +
     length (filter (\<lambda>store. passes_filter only_toilets store \<and>
                       suspicious_row (fst (build_location_row store))) stores)"
  by (induction stores arbitrary: st) (simp_all add: export_store_suspicious)

lemma end_events_length: "length (fst (end_events e)) = count_targets e"
proof (induction e rule: end_events.induct)
  case (1 t x cs)
  have "length (concat (map fst (map end_events cs))) = sum_list (map count_targets cs)"
    using 1 by (induction cs) (simp_all add: length_concat)
  then show ?case
    by (simp add: Let_def is_geoposition_def)
qed

section \<open>Rescaling and its repetition\<close>

lemma parse_float_121532554: "parse_float (ascii ''121532554'') = Some (Finite 121532554)"
  by (simp add: float_eval)

lemma parse_float_25017604: "parse_float (ascii ''25017604'') = Some (Finite 25017604)"
  by (simp add: float_eval)

lemma float_of_str_121_532554:
  "float_of_str (ascii ''121.532554'') = Some (Finite (1069011650210517 / 8796093022208))"
  by (simp add: float_eval)

lemma float_of_str_25_017604:
  "float_of_str (ascii ''25.017604'') = Some (Finite (3520914751628207 / 140737488355328))"
  by (simp add: float_eval)

lemma float_div_121: "float_div (Finite 121532554) 1000000 = Finite (1069011650210517 / 8796093022208)"
  by (simp add: float_eval)

lemma float_div_25: "float_div (Finite 25017604) 1000000 = Finite (3520914751628207 / 140737488355328)"
  by (simp add: float_eval)

lemma float_le_not_lt: "float_le (float_abs v) (Finite 1000) \<Longrightarrow> \<not> float_lt (Finite 1000) (float_abs v)"
  by (cases v) auto

text \<open>
  C2. Each axis value that parses is divided by 1,000,000 exactly when its magnitude
  exceeds 1000 and is passed through unchanged otherwise, in particular when its magnitude
  is at most 1000, independently of the other axis; the strings \<open>121532554\<close> and
  \<open>25017604\<close> give the floats written \<open>121.532554\<close> and \<open>25.017604\<close>.
\<close>

theorem rescale_per_axis:
  "parse_float x_str = Some x \<Longrightarrow> parse_float y_str = Some y \<Longrightarrow>
   normalize_lng_lat x_str y_str =
     (Some (if float_lt (Finite 1000) (float_abs x) then float_div x 1000000 else x),
      Some (if float_lt (Finite 1000) (float_abs y) then float_div y 1000000 else y)) \<and>
   (float_le (float_abs x) (Finite 1000) \<longrightarrow> fst (normalize_lng_lat x_str y_str) = Some x) \<and>
   (float_le (float_abs y) (Finite 1000) \<longrightarrow> snd (normalize_lng_lat x_str y_str) = Some y) \<and>
   normalize_lng_lat (ascii ''121532554'') (ascii ''25017604'') =
     (float_of_str (ascii ''121.532554''), float_of_str (ascii ''25.017604'')) \<and>
   float_of_str (ascii ''121.532554'') = Some (Finite (1069011650210517 / 8796093022208)) \<and>
   float_of_str (ascii ''25.017604'') = Some (Finite (3520914751628207 / 140737488355328))"
proof (intro conjI impI)
  assume px: "parse_float x_str = Some x" and py: "parse_float y_str = Some y"
  show "normalize_lng_lat x_str y_str =
     (Some (if float_lt (Finite 1000) (float_abs x) then float_div x 1000000 else x),
      Some (if float_lt (Finite 1000) (float_abs y) then float_div y 1000000 else y))"
    using px py by (rule normalize_Some)
  show "fst (normalize_lng_lat x_str y_str) = Some x" if "float_le (float_abs x) (Finite 1000)"
    using float_le_not_lt [OF that] by (simp add: normalize_Some [OF px py])
  show "snd (normalize_lng_lat x_str y_str) = Some y" if "float_le (float_abs y) (Finite 1000)"
    using float_le_not_lt [OF that] by (simp add: normalize_Some [OF px py])
next
  show "normalize_lng_lat (ascii ''121532554'') (ascii ''25017604'') =
     (float_of_str (ascii ''121.532554''), float_of_str (ascii ''25.017604''))"
    by (simp add: normalize_Some [OF parse_float_121532554 parse_float_25017604]
        float_of_str_121_532554 float_of_str_25_017604 float_div_121 float_div_25
        del: float_div.simps)
  show "float_of_str (ascii ''121.532554'') = Some (Finite (1069011650210517 / 8796093022208))"
    by (rule float_of_str_121_532554)
  show "float_of_str (ascii ''25.017604'') = Some (Finite (3520914751628207 / 140737488355328))"
    by (rule float_of_str_25_017604)
qed

theorem rescale_per_axis_witness:
  "parse_float (ascii ''121532554'') = Some (Finite 121532554) \<and>
   parse_float (ascii ''25'') = Some (Finite 25) \<and>
   normalize_lng_lat (ascii ''121532554'') (ascii ''25'') =
     (Some (Finite (1069011650210517 / 8796093022208)), Some (Finite 25))"
  using rescale_per_axis [OF parse_float_121532554 parse_float_25]
  by (simp add: parse_float_121532554 parse_float_25 float_div_121 del: float_div.simps)

lemma parse_float_2e9: "parse_float (ascii ''2000000000'') = Some (Finite 2000000000)"
  by (simp add: float_eval)

lemma parse_float_2000_0: "parse_float (ascii ''2000.0'') = Some (Finite 2000)"
  by (simp add: float_eval)

lemma parse_float_25_0: "parse_float (ascii ''25.0'') = Some (Finite 25)"
  by (simp add: float_eval)

lemma parse_float_121_5: "parse_float (ascii ''121.5'') = Some (Finite (243 / 2))"
  by (simp add: float_eval)

lemma float_div_2e9: "float_div (Finite 2000000000) 1000000 = Finite 2000"
  by (simp add: float_eval)

lemma float_div_2000: "float_div (Finite 2000) 1000000 = Finite (1152921504606847 / 576460752303423488)"
  by (simp add: float_eval)

text \<open>
  C3, as stated, fails: \<open>2000000000\<close> and \<open>25\<close> give \<open>(2000.0, 25.0)\<close>, and these two
  values, written \<open>2000.0\<close> and \<open>25.0\<close>, do not give themselves again: the first one is
  divided by 1,000,000 once more.
\<close>

theorem renormalize_counterexample:
  "normalize_lng_lat (ascii ''2000000000'') (ascii ''25'') = (Some (Finite 2000), Some (Finite 25)) \<and>
   parse_float (ascii ''2000.0'') = Some (Finite 2000) \<and>
   parse_float (ascii ''25.0'') = Some (Finite 25) \<and>
   normalize_lng_lat (ascii ''2000.0'') (ascii ''25.0'') \<noteq> (Some (Finite 2000), Some (Finite 25))"
  by (simp add: normalize_Some [OF parse_float_2e9 parse_float_25]
      normalize_Some [OF parse_float_2000_0 parse_float_25_0]
      parse_float_2000_0 parse_float_25_0 float_div_2e9 float_div_2000 del: float_div.simps)

lemma rescale_stable:
  "\<not> float_lt (Finite 1000) (float_abs v) \<or> v = PosInf \<or> v = NegInf \<Longrightarrow>
   (if float_lt (Finite 1000) (float_abs v) then float_div v 1000000 else v) = v"
  by (cases v) auto

text \<open>
  C3, amended. When the normalizer returns present values \<open>(lng, lat)\<close> neither of which
  has a magnitude above 1000, unless it is infinite, normalizing any two strings that
  parse to \<open>lng\<close> and \<open>lat\<close> returns \<open>(lng, lat)\<close> again; in particular \<open>121.5\<close> and \<open>25.0\<close>
  are returned unchanged.
\<close>

theorem renormalize_small_unchanged:
  "normalize_lng_lat x_str y_str = (Some lng_v, Some lat_v) \<Longrightarrow>
   parse_float x_again = Some lng_v \<Longrightarrow> parse_float y_again = Some lat_v \<Longrightarrow>
   \<not> float_lt (Finite 1000) (float_abs lng_v) \<or> lng_v = PosInf \<or> lng_v = NegInf \<Longrightarrow>
   \<not> float_lt (Finite 1000) (float_abs lat_v) \<or> lat_v = PosInf \<or> lat_v = NegInf \<Longrightarrow>
   normalize_lng_lat x_again y_again = (Some lng_v, Some lat_v) \<and>
   normalize_lng_lat (ascii ''121.5'') (ascii ''25.0'') = (Some (Finite (243 / 2)), Some (Finite 25))"
proof (intro conjI)
  assume "parse_float x_again = Some lng_v" "parse_float y_again = Some lat_v"
    and "\<not> float_lt (Finite 1000) (float_abs lng_v) \<or> lng_v = PosInf \<or> lng_v = NegInf"
    and "\<not> float_lt (Finite 1000) (float_abs lat_v) \<or> lat_v = PosInf \<or> lat_v = NegInf"
  then show "normalize_lng_lat x_again y_again = (Some lng_v, Some lat_v)"
    by (simp only: normalize_Some rescale_stable)
next
  show "normalize_lng_lat (ascii ''121.5'') (ascii ''25.0'') = (Some (Finite (243 / 2)), Some (Finite 25))"
    by (simp add: normalize_Some [OF parse_float_121_5 parse_float_25_0])
qed

theorem renormalize_small_unchanged_witness:
  "normalize_lng_lat (ascii ''121532554'') (ascii ''25017604'') =
     (Some (Finite (1069011650210517 / 8796093022208)), Some (Finite (3520914751628207 / 140737488355328))) \<and>
   parse_float (ascii ''121.532554'') = Some (Finite (1069011650210517 / 8796093022208)) \<and>
   parse_float (ascii ''25.017604'') = Some (Finite (3520914751628207 / 140737488355328)) \<and>
   \<not> float_lt (Finite 1000) (float_abs (Finite (1069011650210517 / 8796093022208))) \<and>
   \<not> float_lt (Finite 1000) (float_abs (Finite (3520914751628207 / 140737488355328))) \<and>
   normalize_lng_lat (ascii ''121.532554'') (ascii ''25.017604'') =
     (Some (Finite (1069011650210517 / 8796093022208)), Some (Finite (3520914751628207 / 140737488355328)))"
proof -
  have n: "normalize_lng_lat (ascii ''121532554'') (ascii ''25017604'') =
     (Some (Finite (1069011650210517 / 8796093022208)), Some (Finite (3520914751628207 / 140737488355328)))"
    by (simp add: normalize_Some [OF parse_float_121532554 parse_float_25017604]
        float_div_121 float_div_25 del: float_div.simps)
  have px: "parse_float (ascii ''121.532554'') = Some (Finite (1069011650210517 / 8796093022208))"
    by (simp add: float_eval)
  have py: "parse_float (ascii ''25.017604'') = Some (Finite (3520914751628207 / 140737488355328))"
    by (simp add: float_eval)
  have sx: "\<not> float_lt (Finite 1000) (float_abs (Finite (1069011650210517 / 8796093022208)))"
    by simp
  have sy: "\<not> float_lt (Finite 1000) (float_abs (Finite (3520914751628207 / 140737488355328)))"
    by simp
  from renormalize_small_unchanged [OF n px py disjI1 [OF sx] disjI1 [OF sy]] n px py sx sy
  show ?thesis by blast
qed

section \<open>Record mapper: defaults\<close>

text \<open>
  C8. For the empty dict, and for every dict without the keys that the mapper reads,
  the mapper returns the row named \<open>7-ELEVEN\<close> (no trailing space) with empty
  description, type \<open>TOILET\<close>, empty \<open>lat\<close>, \<open>lng\<close> and floor and all facility flags
  false, and an audit row whose service tag is false.
\<close>

theorem build_location_row_defaults:
  "\<forall>k \<in> set (map ascii [''poiid'', ''poiname'', ''address'', ''telno'', ''op_time'',
                         ''storeimagetitle'', ''x'', ''y'']). store k = None \<Longrightarrow>
   build_location_row store =
     (\<lparr>name = ascii ''7-ELEVEN'', description = [], type = ascii ''TOILET'',
       lat = CStr [], lng = CStr [], floor_field = [],
       hasTissue = False, hasDryer = False, hasSeat = False, hasDiaperTable = False,
       hasWaterDispenser = False, hasAutoDoor = False, hasHandrail = False\<rparr>,
      \<lparr>source = ascii ''7-ELEVEN iMapSDKOutput'', poiid = [], poiname = [], address = [],
       telno = [], op_time = [], services = [], x_raw = [], y_raw = [],
       has_toilet_service_tag = False\<rparr>)"
proof -
  assume "\<forall>k \<in> set (map ascii [''poiid'', ''poiname'', ''address'', ''telno'', ''op_time'',
                         ''storeimagetitle'', ''x'', ''y'']). store k = None"
  then have "dict_get store (ascii ''poiid'') [] = []" "dict_get store (ascii ''poiname'') [] = []"
    "dict_get store (ascii ''address'') [] = []" "dict_get store (ascii ''telno'') [] = []"
    "dict_get store (ascii ''op_time'') [] = []" "dict_get store (ascii ''storeimagetitle'') [] = []"
    "dict_get store (ascii ''x'') [] = []" "dict_get store (ascii ''y'') [] = []"
    by (simp_all add: dict_get_def)
  then show ?thesis
    by (simp add: build_location_row_def Let_def strip_Nil str_or_def toilet_tag_def
        normalize_None parse_float_Nil)
qed

theorem build_location_row_defaults_witness:
  "name (fst (build_location_row Map.empty)) = [55, 45, 69, 76, 69, 86, 69, 78] \<and>
   lat (fst (build_location_row Map.empty)) = CStr [] \<and>
   lng (fst (build_location_row Map.empty)) = CStr [] \<and>
   \<not> has_toilet_service_tag (snd (build_location_row Map.empty)) \<and>
   build_location_row [ascii ''fax'' \<mapsto> ascii ''1''] = build_location_row Map.empty"
proof -
  have e: "\<forall>k \<in> set (map ascii [''poiid'', ''poiname'', ''address'', ''telno'', ''op_time'',
                         ''storeimagetitle'', ''x'', ''y'']). (Map.empty :: store) k = None"
    by simp
  have f: "\<forall>k \<in> set (map ascii [''poiid'', ''poiname'', ''address'', ''telno'', ''op_time'',
                         ''storeimagetitle'', ''x'', ''y'']). [ascii ''fax'' \<mapsto> ascii ''1''] k = None"
    by (simp add: ascii_def)
  note a = build_location_row_defaults [OF e]
  note b = build_location_row_defaults [OF f]
  have "name (fst (build_location_row Map.empty)) = [55, 45, 69, 76, 69, 86, 69, 78]"
    unfolding a by (simp add: ascii_def)
  moreover have "lat (fst (build_location_row Map.empty)) = CStr []"
    "lng (fst (build_location_row Map.empty)) = CStr []"
    "\<not> has_toilet_service_tag (snd (build_location_row Map.empty))"
    unfolding a by simp_all
  moreover have "build_location_row [ascii ''fax'' \<mapsto> ascii ''1''] = build_location_row Map.empty"
    unfolding a b by (rule refl)
  ultimately show ?thesis
    by blast
qed

section \<open>Export: a document without records\<close>

lemma end_events_no_targets: "count_targets doc = 0 \<Longrightarrow> fst (end_events doc) = []"
  using end_events_length [of doc] by simp

text \<open>
  C9. On a well-formed document without a target element the export returns normally,
  the output has the header and no data row, and the four counters are zero.
\<close>

theorem export_no_targets:
  "count_targets doc = 0 \<Longrightarrow>
   export_csv input_xml (WellFormed doc) output_csv only_toilets include_debug =
     \<lparr>outcome = Inr (),
      csv_header = prisma_fields @ (if include_debug then debug_fields else []),
      csv_data = [],
      stdout = summary_lines input_xml output_csv only_toilets
        \<lparr>total = 0, written = 0, missing_coord = 0, suspicious_coord = 0,
         csv_rows = [], printed = []\<rparr>,
      final = \<lparr>total = 0, written = 0, missing_coord = 0, suspicious_coord = 0,
         csv_rows = [], printed = []\<rparr>\<rparr>"
  by (simp add: export_csv_def Let_def end_events_no_targets)

lemma count_targets_example:
  "count_targets (Element (ascii ''Root'') None [Element (ascii ''Store'') (Some (ascii ''x'')) []]) = 0"
  by (simp add: ascii_def strip_def isspace_def lower_def lower_cp_def)

lemma str_nat_digit: "n < 10 \<Longrightarrow> str_nat n = [48 + n]"
  by (simp add: str_nat.simps)

theorem export_no_targets_witness:
  "count_targets (Element (ascii ''Root'') None [Element (ascii ''Store'') (Some (ascii ''x'')) []]) = 0 \<and>
   csv_data (export_csv (ascii ''711_data.xml'')
     (WellFormed (Element (ascii ''Root'') None [Element (ascii ''Store'') (Some (ascii ''x'')) []]))
     (ascii ''711_locations.csv'') False True) = [] \<and>
   csv_header (export_csv (ascii ''711_data.xml'')
     (WellFormed (Element (ascii ''Root'') None [Element (ascii ''Store'') (Some (ascii ''x'')) []]))
     (ascii ''711_locations.csv'') False True) = prisma_fields @ debug_fields \<and>
   total (final (export_csv (ascii ''711_data.xml'')
     (WellFormed (Element (ascii ''Root'') None [Element (ascii ''Store'') (Some (ascii ''x'')) []]))
     (ascii ''711_locations.csv'') False True)) = 0"
proof -
  note r = export_no_targets [OF count_targets_example,
      of "ascii ''711_data.xml''" "ascii ''711_locations.csv''" False True]
  show ?thesis
    unfolding r using count_targets_example by simp
qed

section \<open>Export: what it returns, prints and writes\<close>

lemma digits_val_snoc: "digits_val (ds @ [c]) = 10 * digits_val ds + (c - 48)"
  by (simp add: digits_val_def)

lemma digits_val_str_nat: "digits_val (str_nat n) = n"
proof (induction n rule: str_nat.induct)
  case (1 n)
  show ?case
  proof (cases "n < 10")
    case True
    then show ?thesis by (simp add: str_nat_digit digits_val_def)
  next
    case False
    then have "str_nat n = str_nat (n div 10) @ [48 + n mod 10]"
      by (subst str_nat.simps) simp
    then show ?thesis using 1 False by (simp add: digits_val_snoc)
  qed
qed

lemma export_csv_well_formed:
  "export_csv input_xml (WellFormed doc) output_csv only_toilets include_debug =
     \<lparr>outcome = Inr (),
      csv_header = prisma_fields @ (if include_debug then debug_fields else []),
      csv_data = csv_rows (foldl (export_store only_toilets include_debug)
        \<lparr>total = 0, written = 0, missing_coord = 0, suspicious_coord = 0,
         csv_rows = [], printed = []\<rparr> (fst (end_events doc))),
      stdout = printed (foldl (export_store only_toilets include_debug)
        \<lparr>total = 0, written = 0, missing_coord = 0, suspicious_coord = 0,
         csv_rows = [], printed = []\<rparr> (fst (end_events doc))) @
        summary_lines input_xml output_csv only_toilets
          (foldl (export_store only_toilets include_debug)
            \<lparr>total = 0, written = 0, missing_coord = 0, suspicious_coord = 0,
             csv_rows = [], printed = []\<rparr> (fst (end_events doc))),
      final = foldl (export_store only_toilets include_debug)
        \<lparr>total = 0, written = 0, missing_coord = 0, suspicious_coord = 0,
         csv_rows = [], printed = []\<rparr> (fst (end_events doc))\<rparr>"
  by (simp add: export_csv_def Let_def)

lemma export_csv_final:
  "final (export_csv input_xml file output_csv only_toilets include_debug) =
     foldl (export_store only_toilets include_debug)
        \<lparr>total = 0, written = 0, missing_coord = 0, suspicious_coord = 0,
         csv_rows = [], printed = []\<rparr> (fst (iter_711_stores file))"
  by (simp add: export_csv_def Let_def split: option.splits)

lemma export_csv_data:
  "csv_data (export_csv input_xml file output_csv only_toilets include_debug) =
     map (\<lambda>store. prisma_cells (fst (build_location_row store)) @
            (if include_debug then debug_cells (snd (build_location_row store)) else []))
       (filter (passes_filter only_toilets) (fst (iter_711_stores file)))"
  by (simp add: export_csv_def Let_def loop_rows split: option.splits)

lemma export_csv_header:
  "csv_header (export_csv input_xml file output_csv only_toilets include_debug) =
     prisma_fields @ (if include_debug then debug_fields else [])"
  by (simp add: export_csv_def Let_def split: option.splits)

lemma export_csv_outcome:
  "outcome (export_csv input_xml file output_csv only_toilets include_debug) =
     (case snd (iter_711_stores file) of Some e \<Rightarrow> Inl e | None \<Rightarrow> Inr ())"
  by (simp add: export_csv_def Let_def split: option.splits)

text \<open>
  C4, as stated, fails: the call returns \<open>None\<close> whatever the counters are. On a document
  with no record and on one with one record the value returned is the same, while the
  totals are 0 and 1.
\<close>

theorem export_returns_none_counterexample:
  "outcome (export_csv (ascii ''711_data.xml'') (WellFormed (Element (ascii ''Root'') None []))
      (ascii ''711_locations.csv'') False False) = Inr () \<and>
   outcome (export_csv (ascii ''711_data.xml'')
      (WellFormed (Element (ascii ''Root'') None [Element (ascii ''GeoPosition'') None []]))
      (ascii ''711_locations.csv'') False False) = Inr () \<and>
   total (final (export_csv (ascii ''711_data.xml'') (WellFormed (Element (ascii ''Root'') None []))
      (ascii ''711_locations.csv'') False False)) = 0 \<and>
   total (final (export_csv (ascii ''711_data.xml'')
      (WellFormed (Element (ascii ''Root'') None [Element (ascii ''GeoPosition'') None []]))
      (ascii ''711_locations.csv'') False False)) = 1"
proof -
  have c0: "count_targets (Element (ascii ''Root'') None []) = 0"
    by (simp add: ascii_def strip_def isspace_def lower_def lower_cp_def)
  have c1: "count_targets (Element (ascii ''Root'') None [Element (ascii ''GeoPosition'') None []]) = 1"
    by (simp add: ascii_def strip_def isspace_def lower_def lower_cp_def)
  show ?thesis
    by (simp add: export_csv_outcome export_csv_final loop_total end_events_length c0 c1
        del: end_events.simps count_targets.simps)
qed

text \<open>
  C4, amended. On a well-formed document the export returns \<open>None\<close> after the input is
  exhausted and reports the four counters on standard output: after one line of dashes
  per written row it prints the summary, whose third to sixth lines end with the decimal
  numbers (from which the numbers can be read back) of the records seen, the records
  written, the written records missing a coordinate and the written records with
  suspicious coordinates.
\<close>

theorem export_prints_counters:
  "outcome (export_csv input_xml (WellFormed doc) output_csv only_toilets include_debug) = Inr () \<and>
   stdout (export_csv input_xml (WellFormed doc) output_csv only_toilets include_debug) =
     replicate (written (final (export_csv input_xml (WellFormed doc) output_csv only_toilets include_debug)))
       dash_line @
     summary_lines input_xml output_csv only_toilets
       (final (export_csv input_xml (WellFormed doc) output_csv only_toilets include_debug)) \<and>
   summary_lines input_xml output_csv only_toilets st ! 2 =
     [32317] @ ascii '' GeoPosition: '' @ str_nat (total st) \<and>
   summary_lines input_xml output_csv only_toilets st ! 3 =
     [36664, 20986, 31558, 25976] @ ascii '': '' @ str_nat (written st) @
       ascii '' (only_toilets='' @ str_bool only_toilets @ ascii '')'' \<and>
   summary_lines input_xml output_csv only_toilets st ! 4 =
     [32570, 23569, 24231, 27161, 31558, 25976] @ ascii '': '' @ str_nat (missing_coord st) \<and>
   summary_lines input_xml output_csv only_toilets st ! 5 =
     [24231, 27161, 21487, 30097, 31558, 25976] @ ascii ''('' @
       [36229, 20986, 21488, 28771, 31684, 22285] @ ascii ''): '' @ str_nat (suspicious_coord st) \<and>
   digits_val (str_nat n) = n \<and>
   total (final (export_csv input_xml (WellFormed doc) output_csv only_toilets include_debug)) =
     length (fst (iter_711_stores (WellFormed doc))) \<and>
   written (final (export_csv input_xml (WellFormed doc) output_csv only_toilets include_debug)) =
     length (filter (passes_filter only_toilets) (fst (iter_711_stores (WellFormed doc)))) \<and>
   missing_coord (final (export_csv input_xml (WellFormed doc) output_csv only_toilets include_debug)) =
     length (filter (\<lambda>store. passes_filter only_toilets store \<and>
                       missing_row (fst (build_location_row store)))
               (fst (iter_711_stores (WellFormed doc)))) \<and>
   suspicious_coord (final (export_csv input_xml (WellFormed doc) output_csv only_toilets include_debug)) =
     length (filter (\<lambda>store. passes_filter only_toilets store \<and>
                       suspicious_row (fst (build_location_row store)))
               (fst (iter_711_stores (WellFormed doc))))"
proof (intro conjI)
  show "stdout (export_csv input_xml (WellFormed doc) output_csv only_toilets include_debug) =
     replicate (written (final (export_csv input_xml (WellFormed doc) output_csv only_toilets include_debug)))
       dash_line @
     summary_lines input_xml output_csv only_toilets
       (final (export_csv input_xml (WellFormed doc) output_csv only_toilets include_debug))"
    by (simp add: export_csv_well_formed loop_printed loop_written)
qed (simp_all add: export_csv_outcome export_csv_final loop_total loop_written loop_missing
      loop_suspicious summary_lines_def digits_val_str_nat)

text \<open>
  C7. With the same input and the same \<open>only_toilets\<close>, the runs with and without
  \<open>include_debug\<close> write the same number of data rows, and the first thirteen values of
  every row of the one are the row of the other: \<open>include_debug\<close> only appends the audit
  columns, to the header and to each row; both runs end the same way.
\<close>

theorem include_debug_only_appends:
  "csv_data (export_csv input_xml file output_csv only_toilets False) =
     map (\<lambda>store. prisma_cells (fst (build_location_row store)))
       (filter (passes_filter only_toilets) (fst (iter_711_stores file))) \<and>
   csv_data (export_csv input_xml file output_csv only_toilets True) =
     map (\<lambda>store. prisma_cells (fst (build_location_row store)) @
                    debug_cells (snd (build_location_row store)))
       (filter (passes_filter only_toilets) (fst (iter_711_stores file))) \<and>
   length (csv_data (export_csv input_xml file output_csv only_toilets True)) =
     length (csv_data (export_csv input_xml file output_csv only_toilets False)) \<and>
   map (take (length prisma_fields)) (csv_data (export_csv input_xml file output_csv only_toilets True)) =
     csv_data (export_csv input_xml file output_csv only_toilets False) \<and>
   csv_header (export_csv input_xml file output_csv only_toilets False) = prisma_fields \<and>
   csv_header (export_csv input_xml file output_csv only_toilets True) = prisma_fields @ debug_fields \<and>
   outcome (export_csv input_xml file output_csv only_toilets True) =
     outcome (export_csv input_xml file output_csv only_toilets False)"
  by (simp add: export_csv_data export_csv_header export_csv_outcome prisma_fields_def
      prisma_cells_def comp_def)

section \<open>The example inputs, evaluated\<close>

lemmas string_eval = ascii_def strip_def isspace_def lower_def lower_cp_def toilet_tag_def

lemma example_events: "fst (end_events example_doc) = [example_store_1, example_store_2]"
  by (simp add: example_doc_def example_store_1_def example_store_2_def Let_def is_geoposition_def
      element_to_dict_case_insensitive_def safe_text_def string_eval)

lemma example_get_1:
  "dict_get example_store_1 (ascii ''poiid'') [] = []"
  "dict_get example_store_1 (ascii ''poiname'') [] = ascii ''A''"
  "dict_get example_store_1 (ascii ''address'') [] = []"
  "dict_get example_store_1 (ascii ''telno'') [] = []"
  "dict_get example_store_1 (ascii ''op_time'') [] = []"
  "dict_get example_store_1 (ascii ''storeimagetitle'') [] = ascii ''01ATM,'' @ toilet_tag"
  "dict_get example_store_1 (ascii ''x'') [] = ascii ''121532554''"
  "dict_get example_store_1 (ascii ''y'') [] = ascii ''25017604''"
  by (simp_all add: example_store_1_def dict_get_def ascii_def)

lemma example_get_2:
  "dict_get example_store_2 (ascii ''poiid'') [] = []"
  "dict_get example_store_2 (ascii ''poiname'') [] = ascii ''B''"
  "dict_get example_store_2 (ascii ''address'') [] = []"
  "dict_get example_store_2 (ascii ''telno'') [] = []"
  "dict_get example_store_2 (ascii ''op_time'') [] = []"
  "dict_get example_store_2 (ascii ''storeimagetitle'') [] = []"
  "dict_get example_store_2 (ascii ''x'') [] = ascii ''121532554''"
  "dict_get example_store_2 (ascii ''y'') [] = []"
  by (simp_all add: example_store_2_def dict_get_def ascii_def)

lemma example_normalize_1:
  "normalize_lng_lat (ascii ''121532554'') (ascii ''25017604'') =
     (Some (Finite (1069011650210517 / 8796093022208)),
      Some (Finite (3520914751628207 / 140737488355328)))"
  by (simp add: normalize_Some [OF parse_float_121532554 parse_float_25017604]
      float_div_121 float_div_25 del: float_div.simps)

lemma example_tag_1: "str_in toilet_tag (ascii ''01ATM,'' @ toilet_tag)"
  by (simp add: string_eval)

lemma strip_example: "strip (ascii ''A'') = ascii ''A''" "strip (ascii ''B'') = ascii ''B''"
  "strip (ascii ''01ATM,'' @ toilet_tag) = ascii ''01ATM,'' @ toilet_tag"
  by (simp_all add: string_eval)

lemma example_row_1:
  "build_location_row example_store_1 =
     (\<lparr>name = ascii ''7-ELEVEN A'', description = [], type = ascii ''TOILET'',
       lat = CFloat (Finite (3520914751628207 / 140737488355328)),
       lng = CFloat (Finite (1069011650210517 / 8796093022208)), floor_field = [],
       hasTissue = False, hasDryer = False, hasSeat = False, hasDiaperTable = False,
       hasWaterDispenser = False, hasAutoDoor = False, hasHandrail = False\<rparr>,
      \<lparr>source = ascii ''7-ELEVEN iMapSDKOutput'', poiid = [], poiname = ascii ''A'', address = [],
       telno = [], op_time = [], services = ascii ''01ATM,'' @ toilet_tag,
       x_raw = ascii ''121532554'', y_raw = ascii ''25017604'',
       has_toilet_service_tag = True\<rparr>)"
  by (simp add: build_location_row_def Let_def example_get_1 example_normalize_1 strip_example
      strip_Nil str_or_def example_tag_1)
     (simp add: ascii_def)

lemma example_row_2:
  "build_location_row example_store_2 =
     (\<lparr>name = ascii ''7-ELEVEN B'', description = [], type = ascii ''TOILET'',
       lat = CStr [], lng = CStr [], floor_field = [],
       hasTissue = False, hasDryer = False, hasSeat = False, hasDiaperTable = False,
       hasWaterDispenser = False, hasAutoDoor = False, hasHandrail = False\<rparr>,
      \<lparr>source = ascii ''7-ELEVEN iMapSDKOutput'', poiid = [], poiname = ascii ''B'', address = [],
       telno = [], op_time = [], services = [],
       x_raw = ascii ''121532554'', y_raw = [],
       has_toilet_service_tag = False\<rparr>)"
  by (simp add: build_location_row_def Let_def example_get_2 strip_example
      strip_Nil str_or_def normalize_None parse_float_Nil)
     (simp add: ascii_def toilet_tag_def)

section \<open>Export: suspicious coordinates\<close>

lemma suspicious_row_iff:
  "suspicious_row r \<longleftrightarrow>
     lat r \<noteq> CStr [] \<and> lng r \<noteq> CStr [] \<and>
     (\<exists>a b. float_of_cell (lat r) = Some a \<and> float_of_cell (lng r) = Some b \<and>
            (\<not> (float_le (Finite 20) a \<and> float_le a (Finite 27)) \<or>
             \<not> (float_le (Finite 118) b \<and> float_le b (Finite (247 / 2)))))"
  by (auto simp: suspicious_row_def outside_taiwan_def split: option.splits)

lemma suspicious_built_iff:
  "suspicious_row (fst (build_location_row store)) \<longleftrightarrow>
     (\<exists>lng_f lat_f.
        normalize_lng_lat (dict_get store (ascii ''x'') []) (dict_get store (ascii ''y'') []) =
          (Some lng_f, Some lat_f) \<and>
        outside_taiwan lat_f lng_f)"
proof -
  obtain fo so where n:
    "normalize_lng_lat (dict_get store (ascii ''x'') []) (dict_get store (ascii ''y'') []) = (fo, so)"
    by (cases "normalize_lng_lat (dict_get store (ascii ''x'') []) (dict_get store (ascii ''y'') [])")
  show ?thesis
    by (cases fo; cases so) (simp_all add: suspicious_row_def build_lat build_lng n)
qed

lemma count_coord_swallow:
  "lat_v \<noteq> CStr [] \<Longrightarrow> lng_v \<noteq> CStr [] \<Longrightarrow>
   float_of_cell lat_v = None \<or> float_of_cell lng_v = None \<Longrightarrow>
   count_coord lat_v lng_v st = st"
  by (auto simp: count_coord_def split: option.splits)

text \<open>
  C5. A pass of the loop increments the suspicious counter exactly for a record that
  passes the filter and whose row is suspicious: \<open>lat\<close> and \<open>lng\<close> are both non-empty,
  both parse, and the latitude is not within 20.0 and 27.0 or the longitude is not within
  118.0 and 123.5; for a row of the mapper these are the values of the normalizer. When
  one of two non-empty values does not parse, neither the missing nor the suspicious
  counter changes. Over the run the counter is the number of such records.
\<close>

theorem suspicious_counter:
  "suspicious_coord (export_store only_toilets include_debug st store) =
     suspicious_coord st +
     (if passes_filter only_toilets store \<and> suspicious_row (fst (build_location_row store))
      then 1 else 0) \<and>
   (passes_filter only_toilets store \<longleftrightarrow>
      \<not> (only_toilets \<and> \<not> has_toilet_service_tag (snd (build_location_row store)))) \<and>
   (suspicious_row r \<longleftrightarrow>
      lat r \<noteq> CStr [] \<and> lng r \<noteq> CStr [] \<and>
      (\<exists>a b. float_of_cell (lat r) = Some a \<and> float_of_cell (lng r) = Some b \<and>
             (\<not> (float_le (Finite 20) a \<and> float_le a (Finite 27)) \<or>
              \<not> (float_le (Finite 118) b \<and> float_le b (Finite (247 / 2)))))) \<and>
   (suspicious_row (fst (build_location_row store)) \<longleftrightarrow>
      (\<exists>lng_f lat_f.
         normalize_lng_lat (dict_get store (ascii ''x'') []) (dict_get store (ascii ''y'') []) =
           (Some lng_f, Some lat_f) \<and>
         outside_taiwan lat_f lng_f)) \<and>
   (lat_v \<noteq> CStr [] \<and> lng_v \<noteq> CStr [] \<and>
    (float_of_cell lat_v = None \<or> float_of_cell lng_v = None) \<longrightarrow>
      missing_coord (count_coord lat_v lng_v st') = missing_coord st' \<and>
      suspicious_coord (count_coord lat_v lng_v st') = suspicious_coord st') \<and>
   suspicious_coord (final (export_csv input_xml file output_csv only_toilets include_debug)) =
     length (filter (\<lambda>store. passes_filter only_toilets store \<and>
                       suspicious_row (fst (build_location_row store)))
               (fst (iter_711_stores file)))"
proof (intro conjI impI)
  show "suspicious_coord (export_store only_toilets include_debug st store) =
     suspicious_coord st +
     (if passes_filter only_toilets store \<and> suspicious_row (fst (build_location_row store))
      then 1 else 0)"
    by (rule export_store_suspicious)
  show "passes_filter only_toilets store \<longleftrightarrow>
      \<not> (only_toilets \<and> \<not> has_toilet_service_tag (snd (build_location_row store)))"
    by (simp add: passes_filter_def)
  show "suspicious_row r \<longleftrightarrow>
      lat r \<noteq> CStr [] \<and> lng r \<noteq> CStr [] \<and>
      (\<exists>a b. float_of_cell (lat r) = Some a \<and> float_of_cell (lng r) = Some b \<and>
             (\<not> (float_le (Finite 20) a \<and> float_le a (Finite 27)) \<or>
              \<not> (float_le (Finite 118) b \<and> float_le b (Finite (247 / 2)))))"
    by (rule suspicious_row_iff)
  show "suspicious_row (fst (build_location_row store)) \<longleftrightarrow>
      (\<exists>lng_f lat_f.
         normalize_lng_lat (dict_get store (ascii ''x'') []) (dict_get store (ascii ''y'') []) =
           (Some lng_f, Some lat_f) \<and>
         outside_taiwan lat_f lng_f)"
    by (rule suspicious_built_iff)
  show "suspicious_coord (final (export_csv input_xml file output_csv only_toilets include_debug)) =
     length (filter (\<lambda>store. passes_filter only_toilets store \<and>
                       suspicious_row (fst (build_location_row store)))
               (fst (iter_711_stores file)))"
    by (simp add: export_csv_final loop_suspicious)
next
  assume "lat_v \<noteq> CStr [] \<and> lng_v \<noteq> CStr [] \<and>
    (float_of_cell lat_v = None \<or> float_of_cell lng_v = None)"
  then have "count_coord lat_v lng_v st' = st'"
    by (simp add: count_coord_swallow)
  then show "missing_coord (count_coord lat_v lng_v st') = missing_coord st'"
    and "suspicious_coord (count_coord lat_v lng_v st') = suspicious_coord st'"
    by simp_all
qed

section \<open>Non-finite coordinates\<close>

lemma parse_float_inf: "parse_float (ascii ''inf'') = Some PosInf"
  by (simp add: float_eval)

lemma parse_float_nan: "parse_float (ascii ''nan'') = Some NaN"
  by (simp add: float_eval)

lemma parse_float_1e3: "parse_float (ascii ''1e3'') = Some (Finite 1000)"
  by (simp add: float_eval)

lemma inf_events: "fst (end_events inf_doc) = [inf_store]"
  by (simp add: inf_doc_def inf_store_def Let_def is_geoposition_def
      element_to_dict_case_insensitive_def safe_text_def string_eval)

lemma inf_get:
  "dict_get inf_store (ascii ''x'') [] = ascii ''inf''"
  "dict_get inf_store (ascii ''y'') [] = ascii ''nan''"
  by (simp_all add: inf_store_def dict_get_def ascii_def)

lemma inf_normalize: "normalize_lng_lat (ascii ''inf'') (ascii ''nan'') = (Some PosInf, Some NaN)"
  by (simp add: normalize_Some [OF parse_float_inf parse_float_nan])

lemma inf_row:
  "lat (fst (build_location_row inf_store)) = CFloat NaN"
  "lng (fst (build_location_row inf_store)) = CFloat PosInf"
  by (simp_all add: build_lat build_lng inf_get inf_normalize)

lemma inf_suspicious: "suspicious_row (fst (build_location_row inf_store))"
  by (simp add: suspicious_row_def inf_row outside_taiwan_def)

lemma inf_not_missing: "\<not> missing_row (fst (build_location_row inf_store))"
  by (simp add: missing_row_def inf_row)

text \<open>
  C10. The strings \<open>inf\<close>, \<open>nan\<close> and \<open>1e3\<close> are not plain decimal numerals, and
  \<open>_parse_float\<close> returns a value for each; the normalizer returns the non-finite pair for
  \<open>inf\<close> and \<open>nan\<close>, and the export counts that record as suspicious, not as missing.
\<close>

theorem non_finite_coordinates:
  "parse_float (ascii ''inf'') = Some PosInf \<and>
   parse_float (ascii ''nan'') = Some NaN \<and>
   parse_float (ascii ''1e3'') = Some (Finite 1000) \<and>
   normalize_lng_lat (ascii ''inf'') (ascii ''nan'') = (Some PosInf, Some NaN) \<and>
   fst (iter_711_stores (WellFormed inf_doc)) = [inf_store] \<and>
   lat (fst (build_location_row inf_store)) = CFloat NaN \<and>
   lng (fst (build_location_row inf_store)) = CFloat PosInf \<and>
   written (final (export_csv (ascii ''711_data.xml'') (WellFormed inf_doc)
     (ascii ''711_locations.csv'') False True)) = 1 \<and>
   missing_coord (final (export_csv (ascii ''711_data.xml'') (WellFormed inf_doc)
     (ascii ''711_locations.csv'') False True)) = 0 \<and>
   suspicious_coord (final (export_csv (ascii ''711_data.xml'') (WellFormed inf_doc)
     (ascii ''711_locations.csv'') False True)) = 1"
  by (simp add: parse_float_inf parse_float_nan parse_float_1e3 inf_normalize inf_events inf_row
      export_csv_final export_store_written export_store_missing export_store_suspicious
      passes_filter_def inf_suspicious inf_not_missing del: end_events.simps)

section \<open>Service tag and filter\<close>

lemma dict_get_absent: "store k = None \<Longrightarrow> dict_get store k [] = []"
  by (simp add: dict_get_def)

text \<open>
  C6. The service tag of the audit row is true exactly when the dict has a service text
  that contains the marker; it is false when the text is absent or empty. The export
  computes the same value for its filter: with \<open>only_toilets\<close> a record is written exactly
  when the tag is true, and without it every record is written.
\<close>

theorem service_tag_is_the_filter:
  "(has_toilet_service_tag (snd (build_location_row store)) \<longleftrightarrow>
      (\<exists>s ps ss. store (ascii ''storeimagetitle'') = Some s \<and> s = ps @ toilet_tag @ ss)) \<and>
   (store (ascii ''storeimagetitle'') = None \<longrightarrow>
      \<not> has_toilet_service_tag (snd (build_location_row store))) \<and>
   (store (ascii ''storeimagetitle'') = Some [] \<longrightarrow>
      \<not> has_toilet_service_tag (snd (build_location_row store))) \<and>
   str_in toilet_tag (str_or (services (snd (build_location_row store))) []) =
     has_toilet_service_tag (snd (build_location_row store)) \<and>
   written (export_store only_toilets include_debug st store) =
     written st +
     (if only_toilets \<and> \<not> has_toilet_service_tag (snd (build_location_row store)) then 0 else 1) \<and>
   csv_rows (export_store only_toilets include_debug st store) =
     csv_rows st @
     (if only_toilets \<and> \<not> has_toilet_service_tag (snd (build_location_row store)) then []
      else [prisma_cells (fst (build_location_row store)) @
            (if include_debug then debug_cells (snd (build_location_row store)) else [])])"
proof (intro conjI impI)
  show "has_toilet_service_tag (snd (build_location_row store)) \<longleftrightarrow>
      (\<exists>s ps ss. store (ascii ''storeimagetitle'') = Some s \<and> s = ps @ toilet_tag @ ss)"
    by (cases "store (ascii ''storeimagetitle'')")
       (simp_all add: build_tag dict_get_def str_in_iff toilet_tag_def)
  show "\<not> has_toilet_service_tag (snd (build_location_row store))"
    if "store (ascii ''storeimagetitle'') = None"
    using that by (simp add: build_tag dict_get_def toilet_tag_def)
  show "\<not> has_toilet_service_tag (snd (build_location_row store))"
    if "store (ascii ''storeimagetitle'') = Some []"
    using that by (simp add: build_tag dict_get_def toilet_tag_def)
  show "str_in toilet_tag (str_or (services (snd (build_location_row store))) []) =
     has_toilet_service_tag (snd (build_location_row store))"
    by (rule export_filter_is_tag)
  show "written (export_store only_toilets include_debug st store) =
     written st +
     (if only_toilets \<and> \<not> has_toilet_service_tag (snd (build_location_row store)) then 0 else 1)"
    by (simp add: export_store_written passes_filter_def)
  show "csv_rows (export_store only_toilets include_debug st store) =
     csv_rows st @
     (if only_toilets \<and> \<not> has_toilet_service_tag (snd (build_location_row store)) then []
      else [prisma_cells (fst (build_location_row store)) @
            (if include_debug then debug_cells (snd (build_location_row store)) else [])])"
    by (simp add: export_store_rows passes_filter_def)
qed

lemma example_absent: "example_store_2 (ascii ''storeimagetitle'') = None"
  by (simp add: example_store_2_def ascii_def)

theorem service_tag_is_the_filter_witness:
  "example_store_2 (ascii ''storeimagetitle'') = None \<and>
   \<not> has_toilet_service_tag (snd (build_location_row example_store_2)) \<and>
   written (export_store True True
     \<lparr>total = 0, written = 0, missing_coord = 0, suspicious_coord = 0, csv_rows = [], printed = []\<rparr>
     example_store_2) = 0 \<and>
   has_toilet_service_tag (snd (build_location_row example_store_1)) \<and>
   written (export_store True True
     \<lparr>total = 0, written = 0, missing_coord = 0, suspicious_coord = 0, csv_rows = [], printed = []\<rparr>
     example_store_1) = 1"
proof -
  note w2 = service_tag_is_the_filter [of example_store_2 True True
      "\<lparr>total = 0, written = 0, missing_coord = 0, suspicious_coord = 0, csv_rows = [], printed = []\<rparr>"]
  note w1 = service_tag_is_the_filter [of example_store_1 True True
      "\<lparr>total = 0, written = 0, missing_coord = 0, suspicious_coord = 0, csv_rows = [], printed = []\<rparr>"]
  have t2: "\<not> has_toilet_service_tag (snd (build_location_row example_store_2))"
    using w2 example_absent by blast
  have t1: "has_toilet_service_tag (snd (build_location_row example_store_1))"
    by (simp add: example_row_1)
  show ?thesis
    using w1 w2 t1 t2 example_absent by simp
qed

lemma float_of_cell_abc: "float_of_cell (CStr (ascii ''abc'')) = None"
  by (simp add: float_eval)

theorem suspicious_counter_witness:
  "passes_filter False inf_store \<and> suspicious_row (fst (build_location_row inf_store)) \<and>
   suspicious_coord (export_store False True
     \<lparr>total = 0, written = 0, missing_coord = 0, suspicious_coord = 0, csv_rows = [], printed = []\<rparr>
     inf_store) = 1 \<and>
   float_of_cell (CStr (ascii ''abc'')) = None \<and>
   missing_coord (count_coord (CStr (ascii ''abc'')) (CFloat (Finite 25))
     \<lparr>total = 1, written = 0, missing_coord = 0, suspicious_coord = 0, csv_rows = [], printed = []\<rparr>) = 0 \<and>
   suspicious_coord (count_coord (CStr (ascii ''abc'')) (CFloat (Finite 25))
     \<lparr>total = 1, written = 0, missing_coord = 0, suspicious_coord = 0, csv_rows = [], printed = []\<rparr>) = 0"
proof -
  note w = suspicious_counter [of False True
      "\<lparr>total = 0, written = 0, missing_coord = 0, suspicious_coord = 0, csv_rows = [], printed = []\<rparr>"
      inf_store "fst (build_location_row inf_store)" "CStr (ascii ''abc'')" "CFloat (Finite 25)"
      "\<lparr>total = 1, written = 0, missing_coord = 0, suspicious_coord = 0, csv_rows = [], printed = []\<rparr>"]
  have p: "passes_filter False inf_store"
    by (simp add: passes_filter_def)
  have "ascii ''abc'' \<noteq> []"
    by (simp add: ascii_def)
  then have n: "CStr (ascii ''abc'') \<noteq> CStr [] \<and> CFloat (Finite 25) \<noteq> CStr [] \<and>
    (float_of_cell (CStr (ascii ''abc'')) = None \<or> float_of_cell (CFloat (Finite 25)) = None)"
    using float_of_cell_abc by simp
  show ?thesis
    using w p n inf_suspicious float_of_cell_abc by simp
qed

lemma example_flags:
  "passes_filter True example_store_1" "\<not> passes_filter True example_store_2"
  "passes_filter False example_store_1" "passes_filter False example_store_2"
  "\<not> missing_row (fst (build_location_row example_store_1))"
  "missing_row (fst (build_location_row example_store_2))"
  "\<not> suspicious_row (fst (build_location_row example_store_1))"
  "\<not> suspicious_row (fst (build_location_row example_store_2))"
  by (simp_all add: passes_filter_def missing_row_def suspicious_row_def outside_taiwan_def
      example_row_1 example_row_2)

theorem export_prints_counters_witness:
  "total (final (export_csv (ascii ''711_data.xml'') (WellFormed example_doc)
     (ascii ''711_locations.csv'') False True)) = 2 \<and>
   written (final (export_csv (ascii ''711_data.xml'') (WellFormed example_doc)
     (ascii ''711_locations.csv'') False True)) = 2 \<and>
   missing_coord (final (export_csv (ascii ''711_data.xml'') (WellFormed example_doc)
     (ascii ''711_locations.csv'') False True)) = 1 \<and>
   suspicious_coord (final (export_csv (ascii ''711_data.xml'') (WellFormed example_doc)
     (ascii ''711_locations.csv'') False True)) = 0 \<and>
   stdout (export_csv (ascii ''711_data.xml'') (WellFormed example_doc)
     (ascii ''711_locations.csv'') False True) =
     [dash_line, dash_line] @
     summary_lines (ascii ''711_data.xml'') (ascii ''711_locations.csv'') False
       (final (export_csv (ascii ''711_data.xml'') (WellFormed example_doc)
          (ascii ''711_locations.csv'') False True))"
  using export_prints_counters [of "ascii ''711_data.xml''" example_doc "ascii ''711_locations.csv''"
      False True]
  by (simp add: example_events example_flags del: end_events.simps)

theorem include_debug_only_appends_witness:
  "csv_data (export_csv (ascii ''711_data.xml'') (WellFormed example_doc)
     (ascii ''711_locations.csv'') True False) =
     [prisma_cells (fst (build_location_row example_store_1))] \<and>
   csv_data (export_csv (ascii ''711_data.xml'') (WellFormed example_doc)
     (ascii ''711_locations.csv'') True True) =
     [prisma_cells (fst (build_location_row example_store_1)) @
      debug_cells (snd (build_location_row example_store_1))] \<and>
   length (csv_data (export_csv (ascii ''711_data.xml'') (WellFormed example_doc)
     (ascii ''711_locations.csv'') False True)) = 2 \<and>
   length (csv_data (export_csv (ascii ''711_data.xml'') (WellFormed example_doc)
     (ascii ''711_locations.csv'') False False)) = 2"
  using include_debug_only_appends [of "ascii ''711_data.xml''" "WellFormed example_doc"
      "ascii ''711_locations.csv''" True]
    include_debug_only_appends [of "ascii ''711_data.xml''" "WellFormed example_doc"
      "ascii ''711_locations.csv''" False]
  by (simp add: example_events example_flags del: end_events.simps)

end
